theory Spec2Isabelle
  imports Main
begin

section \<open>JavaScript values used by the governance form\<close>

text \<open>
  The repository is a React form (\<open>components/ProposalForm.tsx\<close>) over two modules,
  \<open>utils/proposals.ts\<close> (a mock submission) and \<open>utils/web3.ts\<close> (wallet and contract
  calls through ethers.js). This theory embeds their functions. Asynchronous functions are
  modelled by what they return once awaited; what the wallet, the chain and the random
  generator answer is an input of the model, and every call to them is recorded in a trace.
\<close>

subsection \<open>Numbers\<close>

text \<open>
  \<open>votingPeriod\<close> is a JavaScript number that the code only ever sets to the literal 7 or
  to the result of \<open>parseInt\<close>: an integer or NaN. Integers are exact here; a double
  rounds them beyond \<open>2^53\<close>, which no statement below depends on.
\<close>

datatype number = NaN | Num int

definition isWhiteSpace :: "char \<Rightarrow> bool" where
  "isWhiteSpace c = (c \<in> set [CHR 0x09, CHR 0x0A, CHR 0x0B, CHR 0x0C, CHR 0x0D, CHR '' ''])"

definition digitValue :: "char \<Rightarrow> nat option" where
  "digitValue c =
     (let n = (of_char c :: nat)
      in if 48 \<le> n \<and> n \<le> 57 then Some (n - 48)
         else if 97 \<le> n \<and> n \<le> 122 then Some (n - 87)
         else if 65 \<le> n \<and> n \<le> 90 then Some (n - 55)
         else None)"

definition isRadixDigit :: "nat \<Rightarrow> char \<Rightarrow> bool" where
  "isRadixDigit R c = (case digitValue c of Some d \<Rightarrow> d < R | None \<Rightarrow> False)"

definition radixValue :: "nat \<Rightarrow> string \<Rightarrow> nat" where
  "radixValue R ds =
     foldl (\<lambda>a c. case digitValue c of Some d \<Rightarrow> a * R + d | None \<Rightarrow> a) 0 ds"

text \<open>
  \<open>parseInt(string)\<close> with no radix, as ECMAScript defines it: leading white space is
  dropped, a sign is read, a \<open>0x\<close> prefix selects radix 16 (radix 10 otherwise), the longest
  prefix of digits is read, and no digit at all gives NaN. (White space is the ASCII part of
  the standard's set; the sign of a zero is not kept.)
\<close>

definition parseInt :: "string \<Rightarrow> number" where
  "parseInt s =
     (let t = dropWhile isWhiteSpace s;
          neg = (t \<noteq> [] \<and> hd t = CHR ''-'');
          u = (if t \<noteq> [] \<and> (hd t = CHR ''+'' \<or> hd t = CHR ''-'') then tl t else t);
          hex = (take 2 u = ''0x'' \<or> take 2 u = ''0X'');
          R = (if hex then 16 else 10);
          v = (if hex then drop 2 u else u);
          Z = takeWhile (isRadixDigit R) v
      in if Z = [] then NaN
         else Num ((if neg then - 1 else 1) * int (radixValue R Z)))"

definition digitChar :: "nat \<Rightarrow> char" where
  "digitChar d = ''0123456789abcdefghijklmnopqrstuvwxyz'' ! d"

text \<open>\<open>n.toString(r)\<close> for a natural number; the code uses the radices 10 and 16 only.\<close>

function toStringRadix :: "nat \<Rightarrow> nat \<Rightarrow> string" where
  "toStringRadix r n =
     (if r < 2 then []
      else if n < r then [digitChar n]
      else toStringRadix r (n div r) @ [digitChar (n mod r)])"
  by pat_completeness auto
termination
  by (relation "measure snd") auto

declare toStringRadix.simps [simp del]

text \<open>A number inside a template literal: \<open>`${n}`\<close>.\<close>

fun numberToString :: "number \<Rightarrow> string" where
  "numberToString NaN = ''NaN''"
| "numberToString (Num n) =
     (if n < 0 then CHR ''-'' # toStringRadix 10 (nat (- n)) else toStringRadix 10 (nat n))"

text \<open>\<open>s.substring(a, b)\<close> for \<open>a \<le> b\<close>, the only way the code calls it.\<close>

definition substring :: "nat \<Rightarrow> nat \<Rightarrow> string \<Rightarrow> string" where
  "substring a b s = take (b - a) (drop a s)"

text \<open>
  \<open>x || d\<close> on an optional string: the default stands in for \<open>undefined\<close> and for the
  empty string, both falsy.
\<close>

fun orDefault :: "string option \<Rightarrow> string \<Rightarrow> string" where
  "orDefault None d = d"
| "orDefault (Some s) d = (if s = [] then d else s)"

subsection \<open>Thrown values\<close>

text \<open>
  JavaScript can throw any value. The code looks at a thrown value in two ways:
  \<open>error instanceof Error ? error.message : ...\<close> and \<open>switchError.code === 4902\<close>. So a
  thrown value is an \<open>Error\<close> object (its message, its numeric \<open>code\<close> property if it has
  one), some other object (with its numeric \<open>code\<close>, if any), or \<open>null\<close>/\<open>undefined\<close>.
\<close>

datatype thrown =
    ErrorObject string "int option"
  | OtherObject "int option"
  | Nullish

text \<open>\<open>error instanceof Error ? error.message : d\<close>\<close>

fun messageOr :: "thrown \<Rightarrow> string \<Rightarrow> string" where
  "messageOr (ErrorObject m c) d = m"
| "messageOr (OtherObject c) d = d"
| "messageOr Nullish d = d"

text \<open>The \<open>TypeError\<close> of a property read on \<open>null\<close> or \<open>undefined\<close>.\<close>

definition propertyTypeError :: "string \<Rightarrow> thrown" where
  "propertyTypeError p =
     ErrorObject (''Cannot read properties of undefined (reading '' @ [CHR 0x27] @ p @ [CHR 0x27] @ '')'') None"

text \<open>\<open>e.code\<close>: the property, or the \<open>TypeError\<close> when \<open>e\<close> is nullish.\<close>

fun codeOf :: "thrown \<Rightarrow> thrown + int option" where
  "codeOf (ErrorObject m c) = Inr c"
| "codeOf (OtherObject c) = Inr c"
| "codeOf Nullish = Inl (propertyTypeError ''code'')"

subsection \<open>Computations: a trace of external calls and a result or a thrown value\<close>

text \<open>
  A signer is an opaque handle of the wallet, named here by the account it signs for. The
  calls that leave the program: \<open>window.ethereum.request\<close> with its method and the chain
  ids of its parameters, the provider's \<open>getNetwork\<close> and \<open>getSigner\<close>, the signer's
  \<open>getAddress\<close>, \<open>propose\<close> on the contract at an address (with the signer, the targets,
  the values in wei, the calldatas and the description), \<open>tx.wait\<close>, \<open>balanceOf\<close> on the
  contract at an address, and a timer in milliseconds. Building a provider or a contract
  object calls nothing.
\<close>

datatype signer = Signer string

datatype effect =
    EthereumRequest string "string list"
  | GetNetwork
  | GetSigner
  | GetAddress
  | Propose string signer "string list" "int list" "string list" string
  | TxWait
  | BalanceOf string string
  | SetTimeout nat

type_synonym 'a io = "effect list \<times> (thrown + 'a)"

definition ret :: "'a \<Rightarrow> 'a io" where
  "ret x = ([], Inr x)"

definition throw :: "thrown \<Rightarrow> 'a io" where
  "throw e = ([], Inl e)"

text \<open>\<open>await\<close> of an external call: the call is recorded, its outcome is the result.\<close>

definition call :: "effect \<Rightarrow> thrown + 'a \<Rightarrow> 'a io" where
  "call ev outcome = ([ev], outcome)"

text \<open>A library function that touches nothing outside: only its outcome.\<close>

definition pure :: "thrown + 'a \<Rightarrow> 'a io" where
  "pure outcome = ([], outcome)"

text \<open>Sequencing: the second statement runs only when the first did not throw.\<close>

definition andThen :: "'a io \<Rightarrow> ('a \<Rightarrow> 'b io) \<Rightarrow> 'b io" where
  "andThen m f =
     (case m of
        (tr, Inl e) \<Rightarrow> (tr, Inl e)
      | (tr, Inr x) \<Rightarrow> (case f x of (tr', r) \<Rightarrow> (tr @ tr', r)))"

text \<open>\<open>try { m } catch (e) { h e }\<close>\<close>

definition tryCatch :: "'a io \<Rightarrow> (thrown \<Rightarrow> 'a io) \<Rightarrow> 'a io" where
  "tryCatch m h =
     (case m of
        (tr, Inl e) \<Rightarrow> (case h e of (tr', r) \<Rightarrow> (tr @ tr', r))
      | (tr, Inr x) \<Rightarrow> (tr, Inr x))"

section \<open>The data model\<close>

text \<open>
  \<open>ProposalData\<close> (declared in the form and in \<open>proposals.ts\<close>). \<open>proposalType\<close> is a
  string at run time: \<open>handleChange\<close> stores the value of the select element as it comes.
\<close>

record proposalData =
  title :: string
  description :: string
  votingPeriod :: number
  proposalType :: string

text \<open>
  The parameter of \<open>submitGovernanceProposal\<close>: the same four fields and three optional
  ones (\<open>None\<close> is \<open>undefined\<close>).
\<close>

record governanceProposalData = proposalData +
  targets :: "string list option"
  values' :: "string list option"
  calldatas :: "string list option"

text \<open>What the form passes: its \<open>formData\<close>, which has none of the optional fields.\<close>

definition fromFormData :: "proposalData \<Rightarrow> governanceProposalData" where
  "fromFormData d =
     \<lparr>title = title d, description = description d, votingPeriod = votingPeriod d,
      proposalType = proposalType d, targets = None, values' = None, calldatas = None\<rparr>"

text \<open>\<open>SubmissionResult\<close> of \<open>proposals.ts\<close>; \<open>proposalId\<close> is optional.\<close>

record submissionResult =
  success :: bool
  message :: string
  proposalId :: "string option"

text \<open>
  The objects returned by the three functions of \<open>web3.ts\<close>: each is a \<open>success\<close> flag
  and some of the properties below (\<open>None\<close> for a property the object literal does not
  have).
\<close>

record web3Result =
  res_success :: bool
  res_error :: "string option"
  res_address :: "string option"
  res_signer :: "signer option"
  res_proposalId :: "string option"
  res_transactionHash :: "string option"
  res_balance :: "string option"

definition failureResult :: "string \<Rightarrow> web3Result" where
  "failureResult msg =
     \<lparr>res_success = False, res_error = Some msg, res_address = None, res_signer = None,
      res_proposalId = None, res_transactionHash = None, res_balance = None\<rparr>"

section \<open>utils/proposals.ts: the mock submission\<close>

text \<open>
  \<open>rnd\<close> is \<open>Math.random().toString(36)\<close>, the random draw as the code reads it. The
  body of the \<open>try\<close> block waits on a timer of 1500 ms and returns the success object;
  nothing in it throws. (Console output is not part of the model.)
\<close>

definition submitProposal_try :: "string \<Rightarrow> proposalData \<Rightarrow> submissionResult io" where
  "submitProposal_try rnd data =
     andThen (call (SetTimeout 1500) (Inr ())) (\<lambda>_.
       let mockProposalId = ''prop_'' @ substring 2 10 rnd
       in ret \<lparr>success = True, message = ''Proposal submitted successfully'',
                proposalId = Some mockProposalId\<rparr>)"

definition submitProposal_catch :: "thrown \<Rightarrow> submissionResult io" where
  "submitProposal_catch error =
     ret \<lparr>success = False, message = messageOr error ''Failed to submit proposal'',
          proposalId = None\<rparr>"

definition submitProposal :: "string \<Rightarrow> proposalData \<Rightarrow> submissionResult io" where
  "submitProposal rnd data = tryCatch (submitProposal_try rnd data) submitProposal_catch"

section \<open>utils/web3.ts: wallet and contract calls\<close>

definition GOVERNOR_CONTRACT_ADDRESS :: string where
  "GOVERNOR_CONTRACT_ADDRESS = ''0xceb8CB84415bb7712f1B34f628f00d805cd6740B''"

definition GOVERNANCE_TOKEN_ADDRESS :: string where
  "GOVERNANCE_TOKEN_ADDRESS = ''0xc95B4096Be9C48A1C63c9CCa171CfC16069779D0''"

definition TIMELOCK_CONTRACT_ADDRESS :: string where
  "TIMELOCK_CONTRACT_ADDRESS = ''0xF269cFe75b406B074a93cDEa74B7338D6257F9C9''"

definition NETWORK_chainId :: nat where
  "NETWORK_chainId = 11155111"

definition NETWORK_name :: string where
  "NETWORK_name = ''Sepolia Testnet''"

text \<open>
  What a transaction returned by \<open>propose\<close> carries: its hash and the outcome of
  \<open>tx.wait()\<close>, a receipt (its hash), \<open>null\<close> (\<open>None\<close>) or a thrown value.
\<close>

record txResponse =
  tx_hash :: string
  tx_wait :: "thrown + string option"

text \<open>
  The world outside \<open>web3.ts\<close>: whether \<open>window\<close> and \<open>window.ethereum\<close> exist, and the
  outcome of each call to the wallet, the provider and the contracts (\<open>Inl\<close> when the
  call throws or its promise rejects). \<open>formatEther\<close> is the function of ethers.js.
\<close>

record web3Env =
  windowDefined :: bool
  ethereumPresent :: bool
  eth_requestAccounts :: "thrown + unit"
  getNetwork :: "thrown + int"
  wallet_switchEthereumChain :: "string \<Rightarrow> thrown + unit"
  getSigner :: "thrown + signer"
  getAddress :: "signer \<Rightarrow> thrown + string"
  propose :: "signer \<Rightarrow> string list \<Rightarrow> int list \<Rightarrow> string list \<Rightarrow> string \<Rightarrow> thrown + txResponse"
  balanceOf :: "string \<Rightarrow> thrown + int"
  formatEther :: "int \<Rightarrow> thrown + string"

subsection \<open>connectWallet\<close>

text \<open>The inner \<open>catch (switchError)\<close> of the network switch (lines 52 to 58).\<close>

definition switchFailed :: "thrown \<Rightarrow> unit io" where
  "switchFailed switchError =
     (case codeOf switchError of
        Inl typeError \<Rightarrow> throw typeError
      | Inr c \<Rightarrow>
          if c = Some 4902
          then throw (ErrorObject (''Please add the '' @ NETWORK_name @ '' network to your wallet'') None)
          else throw switchError)"

text \<open>The end of the outer \<open>try\<close> block: the signer, its address, the success object
  (lines 61 to 68).\<close>

definition connectWallet_signer :: "web3Env \<Rightarrow> web3Result io" where
  "connectWallet_signer env =
     andThen (call GetSigner (getSigner env)) (\<lambda>signer.
     andThen (call GetAddress (getAddress env signer)) (\<lambda>address.
     ret \<lparr>res_success = True, res_error = None, res_address = Some address,
          res_signer = Some signer, res_proposalId = None, res_transactionHash = None,
          res_balance = None\<rparr>))"

text \<open>The body of the outer \<open>try\<close> block (lines 37 to 68).\<close>

definition connectWallet_try :: "web3Env \<Rightarrow> web3Result io" where
  "connectWallet_try env =
     andThen (call (EthereumRequest ''eth_requestAccounts'' []) (eth_requestAccounts env)) (\<lambda>_.
     andThen (call GetNetwork (getNetwork env)) (\<lambda>chainId.
     andThen
       (if chainId \<noteq> int NETWORK_chainId
        then tryCatch
               (call (EthereumRequest ''wallet_switchEthereumChain''
                        [''0x'' @ toStringRadix 16 NETWORK_chainId])
                     (wallet_switchEthereumChain env (''0x'' @ toStringRadix 16 NETWORK_chainId)))
               switchFailed
        else ret ()) (\<lambda>_.
     connectWallet_signer env)))"

definition connectWallet_catch :: "thrown \<Rightarrow> web3Result io" where
  "connectWallet_catch error = ret (failureResult (messageOr error ''Failed to connect wallet''))"

definition connectWallet :: "web3Env \<Rightarrow> web3Result io" where
  "connectWallet env =
     (if windowDefined env \<and> ethereumPresent env
      then tryCatch (connectWallet_try env) connectWallet_catch
      else ret (failureResult ''MetaMask not installed''))"

subsection \<open>submitGovernanceProposal\<close>

text \<open>
  \<open>ethers.parseEther\<close> (ethers 6: \<open>parseUnits(value, 18)\<close>): the string must match
  \<open>-?[0-9]*\.?[0-9]*\<close> with at least one digit, digits after the eighteenth decimal must
  be zeros, and the result, in wei, must fit 512 signed bits; otherwise it throws an
  \<open>Error\<close> (the texts below shorten the library's messages).
\<close>

definition parseEther :: "string \<Rightarrow> thrown + int" where
  "parseEther s =
     (let neg = (s \<noteq> [] \<and> hd s = CHR ''-'');
          u = (if neg then tl s else s);
          whole = takeWhile (isRadixDigit 10) u;
          r = dropWhile (isRadixDigit 10) u;
          r' = (if r \<noteq> [] \<and> hd r = CHR ''.'' then tl r else r);
          frac = takeWhile (isRadixDigit 10) r';
          rest = dropWhile (isRadixDigit 10) r'
      in if rest \<noteq> [] \<or> length whole + length frac = 0
         then Inl (ErrorObject ''invalid FixedNumber string value'' None)
         else if \<not> list_all (\<lambda>c. c = CHR ''0'') (drop 18 frac)
         then Inl (ErrorObject ''too many decimals for format'' None)
         else
           (let wei = (if neg then - 1 else 1) *
                        (int (radixValue 10 whole) * 10 ^ 18 +
                         int (radixValue 10 (take 18 (frac @ replicate 18 (CHR ''0'')))))
            in if - (2 ^ 511) \<le> wei \<and> wei < 2 ^ 511 then Inr wei
               else Inl (ErrorObject ''overflow'' None)))"

text \<open>\<open>values.map(value => ethers.parseEther(value))\<close>: the first failure throws.\<close>

fun parseEthers :: "string list \<Rightarrow> thrown + int list" where
  "parseEthers [] = Inr []"
| "parseEthers (v # vs) =
     (case parseEther v of
        Inl e \<Rightarrow> Inl e
      | Inr x \<Rightarrow> (case parseEthers vs of Inl e \<Rightarrow> Inl e | Inr xs \<Rightarrow> Inr (x # xs)))"

text \<open>The template literal of line 109.\<close>

definition proposalDescription :: "governanceProposalData \<Rightarrow> string" where
  "proposalDescription proposalData =
     ''# '' @ title proposalData @ [CHR 0x0A, CHR 0x0A] @ description proposalData @
     [CHR 0x0A, CHR 0x0A] @ ''Type: '' @ proposalType proposalData @ [CHR 0x0A] @
     ''Voting Period: '' @ numberToString (votingPeriod proposalData) @ '' days''"

text \<open>
  The body of the \<open>try\<close> block (lines 100 to 150). \<open>a || b\<close> on an optional array takes
  the default only for \<open>undefined\<close>: an array, even empty, is truthy. Reading \<open>receipt.hash\<close>
  on a \<open>null\<close> receipt throws.
\<close>

definition submitGovernanceProposal_try ::
  "web3Env \<Rightarrow> signer \<Rightarrow> governanceProposalData \<Rightarrow> web3Result io" where
  "submitGovernanceProposal_try env signer proposalData =
     (let description = proposalDescription proposalData;
          targets = (case targets proposalData of Some t \<Rightarrow> t | None \<Rightarrow> [TIMELOCK_CONTRACT_ADDRESS]);
          values = (case values' proposalData of Some v \<Rightarrow> v | None \<Rightarrow> [''0'']);
          calldatas = (case calldatas proposalData of Some c \<Rightarrow> c | None \<Rightarrow> [''0x''])
      in andThen (pure (parseEthers values)) (\<lambda>valueBigInts.
         andThen (call (Propose GOVERNOR_CONTRACT_ADDRESS signer targets valueBigInts calldatas description)
                       (propose env signer targets valueBigInts calldatas description)) (\<lambda>tx.
         andThen (call TxWait (tx_wait tx)) (\<lambda>receipt.
           case receipt of
             None \<Rightarrow> throw (propertyTypeError ''hash'')
           | Some receiptHash \<Rightarrow>
               ret \<lparr>res_success = True, res_error = None, res_address = None, res_signer = None,
                    res_proposalId = Some receiptHash, res_transactionHash = Some receiptHash,
                    res_balance = None\<rparr>))))"

definition submitGovernanceProposal_catch :: "thrown \<Rightarrow> web3Result io" where
  "submitGovernanceProposal_catch error =
     ret (failureResult (messageOr error ''Failed to submit proposal''))"

definition submitGovernanceProposal ::
  "web3Env \<Rightarrow> signer \<Rightarrow> governanceProposalData \<Rightarrow> web3Result io" where
  "submitGovernanceProposal env signer proposalData =
     tryCatch (submitGovernanceProposal_try env signer proposalData) submitGovernanceProposal_catch"

subsection \<open>getVotingPower\<close>

definition getVotingPower_try :: "web3Env \<Rightarrow> string \<Rightarrow> web3Result io" where
  "getVotingPower_try env address =
     andThen (call (BalanceOf GOVERNANCE_TOKEN_ADDRESS address) (balanceOf env address)) (\<lambda>balance.
     andThen (pure (formatEther env balance)) (\<lambda>formatted.
     ret \<lparr>res_success = True, res_error = None, res_address = None, res_signer = None,
          res_proposalId = None, res_transactionHash = None, res_balance = Some formatted\<rparr>))"

definition getVotingPower_catch :: "thrown \<Rightarrow> web3Result io" where
  "getVotingPower_catch error = ret (failureResult (messageOr error ''Failed to get voting power''))"

definition getVotingPower :: "web3Env \<Rightarrow> string \<Rightarrow> web3Result io" where
  "getVotingPower env address =
     (if \<not> windowDefined env \<or> \<not> ethereumPresent env
      then ret (failureResult ''MetaMask not installed'')
      else tryCatch (getVotingPower_try env address) getVotingPower_catch)"

section \<open>components/ProposalForm.tsx: the form\<close>

text \<open>The component's state: one field for each \<open>useState\<close> (\<open>statusMessage\<close> is \<open>message\<close>).\<close>

datatype messageType = MsgSuccess | MsgError | MsgInfo

record formState =
  formData :: proposalData
  isSubmitting :: bool
  statusMessage :: "(string \<times> messageType) option"
  walletConnected :: bool
  walletAddress :: "string option"
  signer :: "signer option"
  votingPower :: "string option"

definition initialFormData :: proposalData where
  "initialFormData =
     \<lparr>title = [], description = [], votingPeriod = Num 7, proposalType = ''general''\<rparr>"

definition initialState :: formState where
  "initialState =
     \<lparr>formData = initialFormData, isSubmitting = False, statusMessage = None,
      walletConnected = False, walletAddress = None, signer = None, votingPower = None\<rparr>"

text \<open>
  \<open>handleChange\<close> is the \<open>onChange\<close> of the four controls of the form, so the \<open>name\<close> of
  the event's target is one of their four \<open>name\<close> attributes; \<open>value\<close> is the string the
  control holds.
\<close>

datatype inputName = TitleInput | DescriptionInput | ProposalTypeInput | VotingPeriodInput

fun handleChange :: "inputName \<Rightarrow> string \<Rightarrow> formState \<Rightarrow> formState" where
  "handleChange VotingPeriodInput value st =
     st\<lparr>formData := (formData st)\<lparr>votingPeriod := parseInt value\<rparr>\<rparr>"
| "handleChange TitleInput value st =
     st\<lparr>formData := (formData st)\<lparr>title := value\<rparr>\<rparr>"
| "handleChange DescriptionInput value st =
     st\<lparr>formData := (formData st)\<lparr>description := value\<rparr>\<rparr>"
| "handleChange ProposalTypeInput value st =
     st\<lparr>formData := (formData st)\<lparr>proposalType := value\<rparr>\<rparr>"

text \<open>\<open>address.slice(0, 6)\<close> and \<open>address.slice(-4)\<close>.\<close>

definition shortAddress :: "string \<Rightarrow> string" where
  "shortAddress a = take 6 a @ ''...'' @ drop (length a - 4) a"

definition handleConnectWallet :: "web3Env \<Rightarrow> formState \<Rightarrow> formState" where
  "handleConnectWallet env st =
     (let st1 = st\<lparr>statusMessage := Some (''Connecting to wallet...'', MsgInfo)\<rparr>
      in case snd (connectWallet env) of
           Inl e \<Rightarrow> st1
         | Inr result \<Rightarrow>
             (case (if res_success result then res_address result else None) of
                Some a \<Rightarrow>
                  if a = []
                  then st1\<lparr>statusMessage :=
                         Some (orDefault (res_error result) ''Failed to connect wallet'', MsgError)\<rparr>
                  else st1\<lparr>walletConnected := True, walletAddress := Some a,
                          signer := res_signer result,
                          statusMessage := Some (''Connected: '' @ shortAddress a, MsgSuccess)\<rparr>
              | None \<Rightarrow>
                  st1\<lparr>statusMessage :=
                        Some (orDefault (res_error result) ''Failed to connect wallet'', MsgError)\<rparr>))"

subsection \<open>handleSubmit\<close>

text \<open>
  \<open>handleSubmit\<close> calls the optional \<open>onSubmit\<close> property and one of the two imported
  submission functions. They are parameters here, each giving the outcome of its call
  (\<open>Inl\<close>: it throws, or its promise rejects); the calls made are recorded.
\<close>

datatype invocation =
    OnSubmit proposalData
  | SubmitGovernanceProposal signer proposalData
  | SubmitProposal proposalData

type_synonym submitStep = "invocation list \<times> formState \<times> thrown option"

text \<open>The branch \<open>walletConnected && signer\<close> (lines 82 to 105).\<close>

definition submitOnChain ::
  "(signer \<Rightarrow> proposalData \<Rightarrow> thrown + web3Result) \<Rightarrow> signer \<Rightarrow> proposalData \<Rightarrow> formState \<Rightarrow> submitStep" where
  "submitOnChain sgp sg fd st1 =
     (let st2 = st1\<lparr>statusMessage := Some (''Submitting proposal to blockchain...'', MsgInfo)\<rparr>
      in case sgp sg fd of
           Inl e \<Rightarrow> ([SubmitGovernanceProposal sg fd], st2, Some e)
         | Inr result \<Rightarrow>
             if res_success result
             then (case res_transactionHash result of
                     None \<Rightarrow> ([SubmitGovernanceProposal sg fd], st2, Some (propertyTypeError ''slice''))
                   | Some h \<Rightarrow>
                       ([SubmitGovernanceProposal sg fd],
                        st2\<lparr>statusMessage :=
                              Some (''Proposal submitted on-chain! Transaction: '' @ take 10 h @ ''...'',
                                    MsgSuccess),
                            formData := initialFormData\<rparr>,
                        None))
             else ([SubmitGovernanceProposal sg fd],
                   st2\<lparr>statusMessage :=
                         Some (orDefault (res_error result) ''Failed to submit proposal to blockchain'',
                               MsgError)\<rparr>,
                   None))"

text \<open>The mock branch (lines 107 to 128); an absent \<open>proposalId\<close> prints as \<open>undefined\<close>.\<close>

definition submitMock ::
  "(proposalData \<Rightarrow> thrown + submissionResult) \<Rightarrow> proposalData \<Rightarrow> formState \<Rightarrow> submitStep" where
  "submitMock sp fd st1 =
     (case sp fd of
        Inl e \<Rightarrow> ([SubmitProposal fd], st1, Some e)
      | Inr result \<Rightarrow>
          if success result
          then ([SubmitProposal fd],
                st1\<lparr>statusMessage :=
                      Some (''Proposal submitted (mock)! Proposal ID: '' @
                              (case proposalId result of None \<Rightarrow> ''undefined'' | Some i \<Rightarrow> i),
                            MsgSuccess),
                    formData := initialFormData\<rparr>,
                None)
          else ([SubmitProposal fd],
                st1\<lparr>statusMessage :=
                      Some (orDefault (Some (message result)) ''Failed to submit proposal'', MsgError)\<rparr>,
                None))"

text \<open>
  The body of the \<open>try\<close> block (lines 78 to 129). \<open>st\<close> is the state of the render the
  handler belongs to (what \<open>formData\<close>, \<open>walletConnected\<close> and \<open>signer\<close> read), \<open>st1\<close> the
  state after the two updates of lines 74 and 75.
\<close>

definition handleSubmit_try ::
  "(proposalData \<Rightarrow> thrown + unit) option \<Rightarrow> (signer \<Rightarrow> proposalData \<Rightarrow> thrown + web3Result) \<Rightarrow>
   (proposalData \<Rightarrow> thrown + submissionResult) \<Rightarrow> formState \<Rightarrow> formState \<Rightarrow> submitStep" where
  "handleSubmit_try onSubmit sgp sp st st1 =
     (case (case onSubmit of
              None \<Rightarrow> ([], Inr ())
            | Some f \<Rightarrow> ([OnSubmit (formData st)], f (formData st))) of
        (tr0, Inl e) \<Rightarrow> (tr0, st1, Some e)
      | (tr0, Inr u) \<Rightarrow>
          (case (case (if walletConnected st then signer st else None) of
                   Some sg \<Rightarrow> submitOnChain sgp sg (formData st) st1
                 | None \<Rightarrow> submitMock sp (formData st) st1) of
             (tr, st2, thrown) \<Rightarrow> (tr0 @ tr, st2, thrown)))"

text \<open>The whole handler: the \<open>catch\<close> sets an error message, the \<open>finally\<close> ends the submission.\<close>

definition handleSubmit ::
  "(proposalData \<Rightarrow> thrown + unit) option \<Rightarrow> (signer \<Rightarrow> proposalData \<Rightarrow> thrown + web3Result) \<Rightarrow>
   (proposalData \<Rightarrow> thrown + submissionResult) \<Rightarrow> formState \<Rightarrow> invocation list \<times> formState" where
  "handleSubmit onSubmit sgp sp st =
     (let st1 = st\<lparr>isSubmitting := True,
                   statusMessage := Some (''Processing submission...'', MsgInfo)\<rparr>
      in case handleSubmit_try onSubmit sgp sp st st1 of
           (tr, st2, None) \<Rightarrow> (tr, st2\<lparr>isSubmitting := False\<rparr>)
         | (tr, st2, Some error) \<Rightarrow>
             (tr, st2\<lparr>statusMessage :=
                        Some (messageOr error ''An unexpected error occurred'', MsgError),
                      isSubmitting := False\<rparr>))"

subsection \<open>The form element\<close>

text \<open>
  The markup wires \<open>handleSubmit\<close> to the form's submit event and constrains the controls:
  \<open>title\<close>, \<open>description\<close>, \<open>proposalType\<close> and \<open>votingPeriod\<close> are \<open>required\<close>, and
  \<open>votingPeriod\<close> is a number input with \<open>min="1"\<close> and \<open>max="30"\<close>. The controls are
  controlled: they show the state. A browser fires the submit event only when the submit
  button is enabled and every control satisfies its constraints; otherwise it reports the
  offending control and the handler does not run. (NaN shows as an empty number input,
  which \<open>required\<close> refuses.)
\<close>

definition votingPeriodInRange :: "number \<Rightarrow> bool" where
  "votingPeriodInRange n = (case n of NaN \<Rightarrow> False | Num k \<Rightarrow> 1 \<le> k \<and> k \<le> 30)"

definition checkValidity :: "proposalData \<Rightarrow> bool" where
  "checkValidity d =
     (title d \<noteq> [] \<and> description d \<noteq> [] \<and> proposalType d \<noteq> [] \<and>
      votingPeriodInRange (votingPeriod d))"

text \<open>\<open>disabled={isSubmitting || (!walletConnected && votingPower === '0')}\<close>\<close>

definition submitDisabled :: "formState \<Rightarrow> bool" where
  "submitDisabled st = (isSubmitting st \<or> (\<not> walletConnected st \<and> votingPower st = Some ''0''))"

definition submitForm ::
  "(proposalData \<Rightarrow> thrown + unit) option \<Rightarrow> (signer \<Rightarrow> proposalData \<Rightarrow> thrown + web3Result) \<Rightarrow>
   (proposalData \<Rightarrow> thrown + submissionResult) \<Rightarrow> formState \<Rightarrow> invocation list \<times> formState" where
  "submitForm onSubmit sgp sp st =
     (if submitDisabled st \<or> \<not> checkValidity (formData st) then ([], st)
      else handleSubmit onSubmit sgp sp st)"

text \<open>
  The two submission functions as the form imports them: what the awaited call gives,
  in a world \<open>env\<close> and for a random draw \<open>rnd\<close>.
\<close>

definition onChain :: "web3Env \<Rightarrow> signer \<Rightarrow> proposalData \<Rightarrow> thrown + web3Result" where
  "onChain env sg d = snd (submitGovernanceProposal env sg (fromFormData d))"

definition mock :: "string \<Rightarrow> proposalData \<Rightarrow> thrown + submissionResult" where
  "mock rnd d = snd (submitProposal rnd d)"

text \<open>The form as the page mounts it: with no \<open>onSubmit\<close> property.\<close>

definition pageSubmit :: "web3Env \<Rightarrow> string \<Rightarrow> formState \<Rightarrow> invocation list \<times> formState" where
  "pageSubmit env rnd st = submitForm None (onChain env) (mock rnd) st"

section \<open>Example inputs\<close>

text \<open>
  A wallet on Sepolia that grants every request, a proposal, and the form holding it, with
  and without a connected wallet. The theorems below are instantiated at these.
\<close>

definition exampleEnv :: web3Env where
  "exampleEnv =
     \<lparr>windowDefined = True, ethereumPresent = True,
      eth_requestAccounts = Inr (),
      getNetwork = Inr 11155111,
      wallet_switchEthereumChain = (\<lambda>chain. Inr ()),
      getSigner = Inr (Signer ''0x663d3FC1a358548c12f635de2aaca31FC637ABC6''),
      getAddress = (\<lambda>sg. Inr ''0x663d3FC1a358548c12f635de2aaca31FC637ABC6''),
      propose = (\<lambda>sg ts vs cs d. Inr \<lparr>tx_hash = ''0xce7230110b64ac89'',
                                     tx_wait = Inr (Some ''0xce7230110b64ac89'')\<rparr>),
      balanceOf = (\<lambda>a. Inr 1000000000000000000),
      formatEther = (\<lambda>b. Inr ''1.0'')\<rparr>"

definition exampleSigner :: signer where
  "exampleSigner = Signer ''0x663d3FC1a358548c12f635de2aaca31FC637ABC6''"

definition exampleProposal :: proposalData where
  "exampleProposal =
     \<lparr>title = ''Increase quorum by 3 votes'', description = ''Raise the quorum.'',
      votingPeriod = Num 7, proposalType = ''parameter''\<rparr>"

definition filledState :: formState where
  "filledState = initialState\<lparr>formData := exampleProposal\<rparr>"

definition connectedState :: formState where
  "connectedState =
     filledState\<lparr>walletConnected := True,
                 walletAddress := Some ''0x663d3FC1a358548c12f635de2aaca31FC637ABC6'',
                 signer := Some exampleSigner\<rparr>"

section \<open>Evaluation and sequencing lemmas\<close>

lemma toStringRadix_digit: "2 \<le> r \<Longrightarrow> n < r \<Longrightarrow> toStringRadix r n = [digitChar n]"
  by (simp add: toStringRadix.simps)

lemma toStringRadix_step:
  "2 \<le> r \<Longrightarrow> r \<le> n \<Longrightarrow> toStringRadix r n = toStringRadix r (n div r) @ [digitChar (n mod r)]"
  by (subst toStringRadix.simps) simp

lemma sepolia_hex: "toStringRadix 16 NETWORK_chainId = ''aa36a7''"
  by (simp add: NETWORK_chainId_def toStringRadix_digit toStringRadix_step digitChar_def)

lemma sepolia_param: "''0x'' @ toStringRadix 16 NETWORK_chainId = ''0xaa36a7''"
  by (simp add: sepolia_hex)

lemma parseEther_zero: "parseEther ''0'' = Inr 0"
  by code_simp

lemma parseInt_50: "parseInt ''50'' = Num 50"
  by code_simp

lemma parseInt_12: "parseInt ''12'' = Num 12"
  by code_simp

lemma andThen_call_Inl: "andThen (call ev (Inl e)) f = ([ev], Inl e)"
  by (simp add: andThen_def call_def)

lemma andThen_call_Inr: "andThen (call ev (Inr x)) f = (ev # fst (f x), snd (f x))"
  by (simp add: andThen_def call_def split_beta)

lemma andThen_pure_Inr: "andThen (pure (Inr x)) f = f x"
  by (simp add: andThen_def pure_def split_beta)

lemma andThen_ret: "andThen (ret x) f = f x"
  by (simp add: andThen_def ret_def split_beta)

lemma andThen_Inl: "andThen (tr, Inl e) f = (tr, Inl e)"
  by (simp add: andThen_def)

lemma andThen_Inr: "andThen (tr, Inr x) f = (tr @ fst (f x), snd (f x))"
  by (simp add: andThen_def split_beta)

lemma andThen_fst_snd:
  "andThen m f =
     (case snd m of
        Inl e \<Rightarrow> (fst m, Inl e)
      | Inr x \<Rightarrow> (fst m @ fst (f x), snd (f x)))"
  by (cases m; cases "snd m") (auto simp add: andThen_def split_beta)

lemma andThen_InrE:
  assumes "andThen m f = (tr, Inr r)"
  obtains tr1 x tr2 where "m = (tr1, Inr x)" "f x = (tr2, Inr r)" "tr = tr1 @ tr2"
  using assms by (auto simp add: andThen_def split: prod.splits sum.splits)

lemma tryCatch_ret:
  "tryCatch m (\<lambda>e. ([], Inr (g e))) = (fst m, Inr (case snd m of Inl e \<Rightarrow> g e | Inr x \<Rightarrow> x))"
  by (cases m; cases "snd m") (auto simp add: tryCatch_def)

section \<open>What the functions of web3.ts return\<close>

lemma connectWallet_try_success:
  "connectWallet_try env = (tr, Inr r) \<Longrightarrow> res_success r \<and> res_error r = None"
  unfolding connectWallet_try_def connectWallet_signer_def
  by (elim andThen_InrE) (auto simp add: ret_def)

lemma getVotingPower_try_success:
  "getVotingPower_try env a = (tr, Inr r) \<Longrightarrow> res_success r \<and> res_error r = None"
  unfolding getVotingPower_try_def
  by (elim andThen_InrE) (auto simp add: ret_def)

lemma submitGovernanceProposal_try_success:
  "submitGovernanceProposal_try env sg pd = (tr, Inr r) \<Longrightarrow>
     res_success r \<and> res_error r = None \<and>
     (\<exists>h. res_transactionHash r = Some h \<and> res_proposalId r = Some h)"
  unfolding submitGovernanceProposal_try_def Let_def
  by (elim andThen_InrE) (auto simp add: ret_def throw_def split: option.splits)

lemma connectWallet_result:
  "connectWallet env =
     (if windowDefined env \<and> ethereumPresent env
      then (fst (connectWallet_try env),
            Inr (case snd (connectWallet_try env) of
                   Inl e \<Rightarrow> failureResult (messageOr e ''Failed to connect wallet'')
                 | Inr r \<Rightarrow> r))
      else ([], Inr (failureResult ''MetaMask not installed'')))"
  unfolding connectWallet_def connectWallet_catch_def
  by (simp add: tryCatch_ret ret_def)

lemma submitGovernanceProposal_result:
  "submitGovernanceProposal env sg pd =
     (fst (submitGovernanceProposal_try env sg pd),
      Inr (case snd (submitGovernanceProposal_try env sg pd) of
             Inl e \<Rightarrow> failureResult (messageOr e ''Failed to submit proposal'')
           | Inr r \<Rightarrow> r))"
  unfolding submitGovernanceProposal_def submitGovernanceProposal_catch_def
  by (simp add: tryCatch_ret ret_def)

lemma getVotingPower_result:
  "getVotingPower env a =
     (if \<not> windowDefined env \<or> \<not> ethereumPresent env
      then ([], Inr (failureResult ''MetaMask not installed''))
      else (fst (getVotingPower_try env a),
            Inr (case snd (getVotingPower_try env a) of
                   Inl e \<Rightarrow> failureResult (messageOr e ''Failed to get voting power'')
                 | Inr r \<Rightarrow> r)))"
  unfolding getVotingPower_def getVotingPower_catch_def
  by (simp add: tryCatch_ret ret_def)

subsection \<open>The network check of connectWallet\<close>

lemma switchFailed_trace: "fst (switchFailed e) = []"
  by (cases e) (simp_all add: switchFailed_def throw_def)

lemma switchFailed_throws: "\<exists>e'. snd (switchFailed e) = Inl e'"
  by (cases e) (simp_all add: switchFailed_def throw_def)

lemma switchFailed_4902:
  "codeOf e = Inr (Some 4902) \<Longrightarrow>
     switchFailed e =
       ([], Inl (ErrorObject ''Please add the Sepolia Testnet network to your wallet'' None))"
  by (simp add: switchFailed_def throw_def NETWORK_name_def)

lemma switch_step:
  "tryCatch (call ev out) switchFailed =
     ([ev], case out of Inl e \<Rightarrow> snd (switchFailed e) | Inr u \<Rightarrow> Inr u)"
  using switchFailed_trace
  by (cases out) (auto simp add: tryCatch_def call_def split_beta)

lemma connectWallet_signer_trace: "set (fst (connectWallet_signer env)) \<subseteq> {GetSigner, GetAddress}"
  by (cases "getSigner env")
     (auto simp add: connectWallet_signer_def andThen_fst_snd call_def ret_def split: sum.splits)

lemma connectWallet_try_steps:
  "connectWallet_try env =
     andThen (call (EthereumRequest ''eth_requestAccounts'' []) (eth_requestAccounts env)) (\<lambda>_.
     andThen (call GetNetwork (getNetwork env)) (\<lambda>chainId.
     andThen
       (if chainId \<noteq> 11155111
        then tryCatch
               (call (EthereumRequest ''wallet_switchEthereumChain'' [''0xaa36a7''])
                     (wallet_switchEthereumChain env ''0xaa36a7''))
               switchFailed
        else ret ()) (\<lambda>_. connectWallet_signer env)))"
  unfolding connectWallet_try_def sepolia_param
  by (simp add: NETWORK_chainId_def)

lemma connectWallet_try_reached:
  assumes "eth_requestAccounts env = Inr ()" "getNetwork env = Inr chainId"
  shows "connectWallet_try env =
     (if chainId \<noteq> 11155111
      then (case wallet_switchEthereumChain env ''0xaa36a7'' of
              Inl e \<Rightarrow>
                ([EthereumRequest ''eth_requestAccounts'' [], GetNetwork,
                  EthereumRequest ''wallet_switchEthereumChain'' [''0xaa36a7'']],
                 case snd (switchFailed e) of
                   Inl e' \<Rightarrow> Inl e'
                 | Inr v \<Rightarrow> snd (connectWallet_signer env))
            | Inr u \<Rightarrow>
                ([EthereumRequest ''eth_requestAccounts'' [], GetNetwork,
                  EthereumRequest ''wallet_switchEthereumChain'' [''0xaa36a7'']] @
                 fst (connectWallet_signer env), snd (connectWallet_signer env)))
      else ([EthereumRequest ''eth_requestAccounts'' [], GetNetwork] @
            fst (connectWallet_signer env),
            snd (connectWallet_signer env)))"
proof (cases "chainId = 11155111")
  case True
  then show ?thesis
    using assms by (simp add: connectWallet_try_steps andThen_call_Inr andThen_ret)
next
  case False
  show ?thesis
  proof (cases "wallet_switchEthereumChain env ''0xaa36a7''")
    case (Inl e)
    obtain e' where "snd (switchFailed e) = Inl e'"
      using switchFailed_throws by blast
    with False Inl assms show ?thesis
      by (simp add: connectWallet_try_steps andThen_call_Inr switch_step andThen_Inl)
  next
    case (Inr u)
    with False assms show ?thesis
      by (simp add: connectWallet_try_steps andThen_call_Inr switch_step andThen_Inr)
  qed
qed

subsection \<open>The contract call of submitGovernanceProposal\<close>



section \<open>What handleSubmit does\<close>

lemma submitOnChain_trace:
  "fst (submitOnChain sgp sg fd st1) = [SubmitGovernanceProposal sg fd]"
  by (simp add: submitOnChain_def Let_def split: sum.split option.split)

lemma submitMock_trace:
  "fst (submitMock sp fd st1) = [SubmitProposal fd]"
  by (simp add: submitMock_def split: sum.split)

lemma submitOnChain_formData:
  "formData (fst (snd (submitOnChain sgp sg fd st1))) =
     (case sgp sg fd of
        Inl e \<Rightarrow> formData st1
      | Inr r \<Rightarrow> if res_success r \<and> res_transactionHash r \<noteq> None then initialFormData
                 else formData st1)"
  by (simp add: submitOnChain_def Let_def split: sum.split option.split)

lemma submitMock_formData:
  "formData (fst (snd (submitMock sp fd st1))) =
     (case sp fd of
        Inl e \<Rightarrow> formData st1
      | Inr r \<Rightarrow> if success r then initialFormData else formData st1)"
  by (simp add: submitMock_def split: sum.split)

lemma submitOnChain_thrown:
  "snd (snd (submitOnChain sgp sg fd st1)) =
     (case sgp sg fd of
        Inl e \<Rightarrow> Some e
      | Inr r \<Rightarrow> if res_success r \<and> res_transactionHash r = None
                 then Some (propertyTypeError ''slice'') else None)"
  by (simp add: submitOnChain_def Let_def split: sum.split option.split)

lemma submitMock_thrown:
  "snd (snd (submitMock sp fd st1)) = (case sp fd of Inl e \<Rightarrow> Some e | Inr r \<Rightarrow> None)"
  by (simp add: submitMock_def split: sum.split)

lemma handleSubmit_try_trace:
  "fst (handleSubmit_try onSubmit sgp sp st st1) =
     (case onSubmit of None \<Rightarrow> [] | Some f \<Rightarrow> [OnSubmit (formData st)]) @
     (case (case onSubmit of None \<Rightarrow> Inr () | Some f \<Rightarrow> f (formData st)) of
        Inl e \<Rightarrow> []
      | Inr u \<Rightarrow>
          (case (if walletConnected st then signer st else None) of
             Some sg \<Rightarrow> [SubmitGovernanceProposal sg (formData st)]
           | None \<Rightarrow> [SubmitProposal (formData st)]))"
proof (cases onSubmit)
  case None
  then show ?thesis
    by (simp add: handleSubmit_try_def split_beta submitOnChain_trace submitMock_trace
        split: option.split)
next
  case (Some f)
  then show ?thesis
    by (cases "f (formData st)")
       (simp_all add: handleSubmit_try_def split_beta submitOnChain_trace submitMock_trace
          split: option.split)
qed

lemma handleSubmit_try_formData:
  "formData (fst (snd (handleSubmit_try onSubmit sgp sp st st1))) =
     (case (case onSubmit of None \<Rightarrow> Inr () | Some f \<Rightarrow> f (formData st)) of
        Inl e \<Rightarrow> formData st1
      | Inr u \<Rightarrow>
          (case (if walletConnected st then signer st else None) of
             Some sg \<Rightarrow> formData (fst (snd (submitOnChain sgp sg (formData st) st1)))
           | None \<Rightarrow> formData (fst (snd (submitMock sp (formData st) st1)))))"
proof (cases onSubmit)
  case None
  then show ?thesis
    by (simp add: handleSubmit_try_def split_beta split: option.split)
next
  case (Some f)
  then show ?thesis
    by (cases "f (formData st)")
       (simp_all add: handleSubmit_try_def split_beta split: option.split)
qed

lemma handleSubmit_try_thrown:
  "snd (snd (handleSubmit_try onSubmit sgp sp st st1)) =
     (case (case onSubmit of None \<Rightarrow> Inr () | Some f \<Rightarrow> f (formData st)) of
        Inl e \<Rightarrow> Some e
      | Inr u \<Rightarrow>
          (case (if walletConnected st then signer st else None) of
             Some sg \<Rightarrow> snd (snd (submitOnChain sgp sg (formData st) st1))
           | None \<Rightarrow> snd (snd (submitMock sp (formData st) st1))))"
proof (cases onSubmit)
  case None
  then show ?thesis
    by (simp add: handleSubmit_try_def split_beta split: option.split)
next
  case (Some f)
  then show ?thesis
    by (cases "f (formData st)")
       (simp_all add: handleSubmit_try_def split_beta split: option.split)
qed

lemma handleSubmit_trace:
  "fst (handleSubmit onSubmit sgp sp st) =
     fst (handleSubmit_try onSubmit sgp sp st
            (st\<lparr>isSubmitting := True,
                statusMessage := Some (''Processing submission...'', MsgInfo)\<rparr>))"
  by (simp add: handleSubmit_def Let_def split_beta split: option.split)

lemma handleSubmit_formData:
  "formData (snd (handleSubmit onSubmit sgp sp st)) =
     formData (fst (snd (handleSubmit_try onSubmit sgp sp st
            (st\<lparr>isSubmitting := True,
                statusMessage := Some (''Processing submission...'', MsgInfo)\<rparr>))))"
  by (simp add: handleSubmit_def Let_def split_beta split: option.split)

text \<open>The calls the handler makes, and the form fields it leaves, in every case.\<close>

lemma handleSubmit_trace_cases:
  "fst (handleSubmit onSubmit sgp sp st) =
     (case onSubmit of None \<Rightarrow> [] | Some f \<Rightarrow> [OnSubmit (formData st)]) @
     (case (case onSubmit of None \<Rightarrow> Inr () | Some f \<Rightarrow> f (formData st)) of
        Inl e \<Rightarrow> []
      | Inr u \<Rightarrow>
          (case (if walletConnected st then signer st else None) of
             Some sg \<Rightarrow> [SubmitGovernanceProposal sg (formData st)]
           | None \<Rightarrow> [SubmitProposal (formData st)]))"
  by (simp only: handleSubmit_trace handleSubmit_try_trace)

lemma handleSubmit_formData_cases:
  "formData (snd (handleSubmit onSubmit sgp sp st)) =
     (case (case onSubmit of None \<Rightarrow> Inr () | Some f \<Rightarrow> f (formData st)) of
        Inl e \<Rightarrow> formData st
      | Inr u \<Rightarrow>
          (case (if walletConnected st then signer st else None) of
             Some sg \<Rightarrow>
               (case sgp sg (formData st) of
                  Inl e \<Rightarrow> formData st
                | Inr r \<Rightarrow> if res_success r \<and> res_transactionHash r \<noteq> None
                           then initialFormData else formData st)
           | None \<Rightarrow>
               (case sp (formData st) of
                  Inl e \<Rightarrow> formData st
                | Inr r \<Rightarrow> if success r then initialFormData else formData st)))"
  by (auto simp add: handleSubmit_formData handleSubmit_try_formData submitOnChain_formData
      submitMock_formData split: sum.split option.split)

text \<open>
  The handler itself has no check of the fields: called on the empty initial form, it
  submits it. The refusal of an empty form is the form element's.
\<close>

lemma handleSubmit_unguarded:
  "fst (handleSubmit None sgp sp initialState) = [SubmitProposal initialFormData]"
  by (simp add: handleSubmit_trace_cases initialState_def)

lemma submitProposal_eval:
  "submitProposal rnd data =
     ([SetTimeout 1500],
      Inr \<lparr>success = True, message = ''Proposal submitted successfully'',
           proposalId = Some (''prop_'' @ substring 2 10 rnd)\<rparr>)"
  by (simp add: submitProposal_def submitProposal_try_def tryCatch_def andThen_def call_def ret_def)

lemma handleSubmit_onChain_ok:
  assumes "(case onSubmit of None \<Rightarrow> Inr () | Some f \<Rightarrow> f (formData st)) = Inr ()"
    and "(if walletConnected st then signer st else None) = Some sg"
    and "sgp sg (formData st) = Inr r" "res_success r" "res_transactionHash r = Some h"
  shows "statusMessage (snd (handleSubmit onSubmit sgp sp st)) =
           Some (''Proposal submitted on-chain! Transaction: '' @ take 10 h @ ''...'', MsgSuccess)"
  using assms
  by (cases onSubmit)
     (simp_all add: handleSubmit_def handleSubmit_try_def submitOnChain_def Let_def)

lemma handleSubmit_mock_ok:
  assumes "(case onSubmit of None \<Rightarrow> Inr () | Some f \<Rightarrow> f (formData st)) = Inr ()"
    and "(if walletConnected st then signer st else None) = None"
    and "sp (formData st) = Inr r" "success r"
  shows "statusMessage (snd (handleSubmit onSubmit sgp sp st)) =
           Some (''Proposal submitted (mock)! Proposal ID: '' @
                   (case proposalId r of None \<Rightarrow> ''undefined'' | Some i \<Rightarrow> i), MsgSuccess)"
  using assms
  by (cases onSubmit)
     (simp_all add: handleSubmit_def handleSubmit_try_def submitMock_def Let_def)

lemma handleSubmit_error_message:
  assumes "statusMessage (snd (handleSubmit onSubmit sgp sp st)) = Some (m, MsgError)"
  shows "formData (snd (handleSubmit onSubmit sgp sp st)) = formData st"
proof (rule ccontr)
  assume neq: "formData (snd (handleSubmit onSubmit sgp sp st)) \<noteq> formData st"
  then have ok: "(case onSubmit of None \<Rightarrow> Inr () | Some f \<Rightarrow> f (formData st)) = Inr ()"
    by (auto simp add: handleSubmit_formData_cases split: sum.splits)
  show False
  proof (cases "if walletConnected st then signer st else None")
    case None
    with neq ok obtain r where "sp (formData st) = Inr r" "success r"
      by (auto simp add: handleSubmit_formData_cases split: sum.splits if_splits)
    then show False
      using assms handleSubmit_mock_ok [OF ok None] by simp
  next
    case (Some sg)
    with neq ok obtain r h where "sgp sg (formData st) = Inr r" "res_success r"
        "res_transactionHash r = Some h"
      by (auto simp add: handleSubmit_formData_cases split: sum.splits if_splits)
    then show False
      using assms handleSubmit_onChain_ok [OF ok Some] by simp
  qed
qed

lemma exampleEnv_onChain:
  "onChain exampleEnv sg exampleProposal =
     Inr \<lparr>res_success = True, res_error = None, res_address = None, res_signer = None,
          res_proposalId = Some ''0xce7230110b64ac89'',
          res_transactionHash = Some ''0xce7230110b64ac89'', res_balance = None\<rparr>"
  by (simp add: onChain_def submitGovernanceProposal_result submitGovernanceProposal_try_def
      Let_def fromFormData_def parseEther_zero andThen_pure_Inr andThen_call_Inr exampleEnv_def
      ret_def)

lemma failing_balance_try:
  "snd (getVotingPower_try (exampleEnv\<lparr>balanceOf := \<lambda>a. Inl (OtherObject (Some 3))\<rparr>) []) =
     Inl (OtherObject (Some 3))"
  by (simp add: getVotingPower_try_def andThen_call_Inl)

lemma rejected_transaction_try:
  "snd (submitGovernanceProposal_try
          (exampleEnv\<lparr>propose := \<lambda>sg ts vs cs d. Inl (ErrorObject ''user rejected action'' None)\<rparr>)
          exampleSigner (fromFormData exampleProposal)) =
     Inl (ErrorObject ''user rejected action'' None)"
  by (simp add: submitGovernanceProposal_try_def Let_def fromFormData_def parseEther_zero
      andThen_pure_Inr andThen_call_Inl)

section \<open>The claims of the specification\<close>

subsection \<open>C1: the voting period\<close>

text \<open>
  The specification has \<open>votingPeriod\<close> clamped to the range 1 to 30 at every change event.
  \<open>handleChange\<close> does not clamp: typing 50 into the field stores 50.
\<close>

theorem handleChange_votingPeriod_counterexample:
  "votingPeriod (formData (handleChange VotingPeriodInput ''50'' initialState)) = Num 50 \<and>
   \<not> votingPeriodInRange (votingPeriod (formData (handleChange VotingPeriodInput ''50'' initialState)))"
  by (simp add: parseInt_50 votingPeriodInRange_def)

text \<open>
  Claim C1, as the code has it. For every change event on the \<open>votingPeriod\<close> input,
  \<open>handleChange\<close> stores \<open>parseInt(value)\<close> as it is, with no clamping, and a change event
  on another input leaves \<open>votingPeriod\<close> alone. At every point where a submit attempt on
  the form calls \<open>submitProposal\<close> or \<open>submitGovernanceProposal\<close>, the \<open>votingPeriod\<close> of
  the data passed is an integer from 1 to 30: the input's \<open>required\<close>, \<open>min\<close> and \<open>max\<close>
  refuse any other value, they do not clamp it.
\<close>

theorem votingPeriod_parsed_and_validated:
  "votingPeriod (formData (handleChange VotingPeriodInput v st)) = parseInt v \<and>
   (name \<noteq> VotingPeriodInput \<longrightarrow>
      votingPeriod (formData (handleChange name v st)) = votingPeriod (formData st)) \<and>
   (SubmitProposal d \<in> set (fst (submitForm onSubmit sgp sp st')) \<or>
    SubmitGovernanceProposal sg d \<in> set (fst (submitForm onSubmit sgp sp st')) \<longrightarrow>
      votingPeriodInRange (votingPeriod d))"
proof (intro conjI impI)
  show "votingPeriod (formData (handleChange VotingPeriodInput v st)) = parseInt v"
    by simp
  show "votingPeriod (formData (handleChange name v st)) = votingPeriod (formData st)"
    if "name \<noteq> VotingPeriodInput"
    using that by (cases name) simp_all
  show "votingPeriodInRange (votingPeriod d)"
    if "SubmitProposal d \<in> set (fst (submitForm onSubmit sgp sp st')) \<or>
        SubmitGovernanceProposal sg d \<in> set (fst (submitForm onSubmit sgp sp st'))"
    using that
    by (auto simp add: submitForm_def checkValidity_def handleSubmit_trace_cases
        split: if_splits option.splits sum.splits)
qed

theorem votingPeriod_parsed_and_validated_witness:
  "votingPeriod (formData (handleChange VotingPeriodInput ''12'' initialState)) = Num 12 \<and>
   votingPeriod (formData (handleChange TitleInput ''12'' initialState)) = Num 7 \<and>
   SubmitProposal exampleProposal \<in> set (fst (pageSubmit exampleEnv ''0.4fzyo82mvyr'' filledState)) \<and>
   votingPeriodInRange (votingPeriod exampleProposal)"
  using votingPeriod_parsed_and_validated [where v = "''12''" and st = initialState
      and name = TitleInput and d = exampleProposal and onSubmit = None
      and sgp = "onChain exampleEnv" and sp = "mock ''0.4fzyo82mvyr''" and st' = filledState
      and sg = exampleSigner]
  by (simp add: parseInt_12 pageSubmit_def submitForm_def submitDisabled_def checkValidity_def
      votingPeriodInRange_def handleSubmit_trace_cases filledState_def initialState_def
      initialFormData_def exampleProposal_def)

subsection \<open>C2: the mock submission succeeds\<close>



subsection \<open>C3: the functions of web3.ts return their errors\<close>

text \<open>
  Claim C3. \<open>connectWallet\<close>, \<open>submitGovernanceProposal\<close> and \<open>getVotingPower\<close> always
  return an object and never a thrown value; a returned object without \<open>success\<close> has a
  string in \<open>error\<close>; and whenever the body of the \<open>try\<close> block throws \<open>e\<close>, the object
  returned has \<open>success = false\<close>, the message of \<open>e\<close> in \<open>error\<close> (the function's fixed
  text when \<open>e\<close> is not an \<open>Error\<close>) and no other property. With no wallet,
  \<open>connectWallet\<close> and \<open>getVotingPower\<close> return \<open>success = false\<close> with the error
  \<open>MetaMask not installed\<close>.
\<close>

theorem web3_errors_returned:
  "(\<exists>tr r. connectWallet env = (tr, Inr r) \<and>
      (\<not> res_success r \<longrightarrow> (\<exists>msg. res_error r = Some msg))) \<and>
   (\<forall>e. windowDefined env \<and> ethereumPresent env \<and> snd (connectWallet_try env) = Inl e \<longrightarrow>
      snd (connectWallet env) =
        Inr \<lparr>res_success = False, res_error = Some (case e of ErrorObject m c \<Rightarrow> m | OtherObject c \<Rightarrow> ''Failed to connect wallet'' | Nullish \<Rightarrow> ''Failed to connect wallet''),
             res_address = None, res_signer = None, res_proposalId = None,
             res_transactionHash = None, res_balance = None\<rparr>) \<and>
   (\<exists>tr r. submitGovernanceProposal env sg pd = (tr, Inr r) \<and>
      (\<not> res_success r \<longrightarrow> (\<exists>msg. res_error r = Some msg))) \<and>
   (\<forall>e. snd (submitGovernanceProposal_try env sg pd) = Inl e \<longrightarrow>
      snd (submitGovernanceProposal env sg pd) =
        Inr \<lparr>res_success = False, res_error = Some (case e of ErrorObject m c \<Rightarrow> m | OtherObject c \<Rightarrow> ''Failed to submit proposal'' | Nullish \<Rightarrow> ''Failed to submit proposal''),
             res_address = None, res_signer = None, res_proposalId = None,
             res_transactionHash = None, res_balance = None\<rparr>) \<and>
   (\<exists>tr r. getVotingPower env a = (tr, Inr r) \<and>
      (\<not> res_success r \<longrightarrow> (\<exists>msg. res_error r = Some msg))) \<and>
   (\<forall>e. windowDefined env \<and> ethereumPresent env \<and> snd (getVotingPower_try env a) = Inl e \<longrightarrow>
      snd (getVotingPower env a) =
        Inr \<lparr>res_success = False, res_error = Some (case e of ErrorObject m c \<Rightarrow> m | OtherObject c \<Rightarrow> ''Failed to get voting power'' | Nullish \<Rightarrow> ''Failed to get voting power''),
             res_address = None, res_signer = None, res_proposalId = None,
             res_transactionHash = None, res_balance = None\<rparr>) \<and>
   (\<not> (windowDefined env \<and> ethereumPresent env) \<longrightarrow>
      snd (connectWallet env) =
        Inr \<lparr>res_success = False, res_error = Some ''MetaMask not installed'',
             res_address = None, res_signer = None, res_proposalId = None,
             res_transactionHash = None, res_balance = None\<rparr> \<and>
      snd (getVotingPower env a) =
        Inr \<lparr>res_success = False, res_error = Some ''MetaMask not installed'',
             res_address = None, res_signer = None, res_proposalId = None,
             res_transactionHash = None, res_balance = None\<rparr>)"
proof (intro conjI)
  show "\<exists>tr r. connectWallet env = (tr, Inr r) \<and>
      (\<not> res_success r \<longrightarrow> (\<exists>msg. res_error r = Some msg))"
    using connectWallet_try_success [of env "fst (connectWallet_try env)"]
    by (cases "snd (connectWallet_try env)")
       (auto simp add: connectWallet_result failureResult_def prod_eq_iff)
  show "\<forall>e. windowDefined env \<and> ethereumPresent env \<and> snd (connectWallet_try env) = Inl e \<longrightarrow>
      snd (connectWallet env) =
        Inr \<lparr>res_success = False, res_error = Some (case e of ErrorObject m c \<Rightarrow> m | OtherObject c \<Rightarrow> ''Failed to connect wallet'' | Nullish \<Rightarrow> ''Failed to connect wallet''),
             res_address = None, res_signer = None, res_proposalId = None,
             res_transactionHash = None, res_balance = None\<rparr>"
  proof (intro allI impI)
    fix e
    assume "windowDefined env \<and> ethereumPresent env \<and> snd (connectWallet_try env) = Inl e"
    then show "snd (connectWallet env) =
        Inr \<lparr>res_success = False, res_error = Some (case e of ErrorObject m c \<Rightarrow> m | OtherObject c \<Rightarrow> ''Failed to connect wallet'' | Nullish \<Rightarrow> ''Failed to connect wallet''),
             res_address = None, res_signer = None, res_proposalId = None,
             res_transactionHash = None, res_balance = None\<rparr>"
      by (cases e) (simp_all add: connectWallet_result failureResult_def)
  qed
  show "\<exists>tr r. submitGovernanceProposal env sg pd = (tr, Inr r) \<and>
      (\<not> res_success r \<longrightarrow> (\<exists>msg. res_error r = Some msg))"
    using submitGovernanceProposal_try_success
      [of env sg pd "fst (submitGovernanceProposal_try env sg pd)"]
    by (cases "snd (submitGovernanceProposal_try env sg pd)")
       (auto simp add: submitGovernanceProposal_result failureResult_def prod_eq_iff)
  show "\<forall>e. snd (submitGovernanceProposal_try env sg pd) = Inl e \<longrightarrow>
      snd (submitGovernanceProposal env sg pd) =
        Inr \<lparr>res_success = False, res_error = Some (case e of ErrorObject m c \<Rightarrow> m | OtherObject c \<Rightarrow> ''Failed to submit proposal'' | Nullish \<Rightarrow> ''Failed to submit proposal''),
             res_address = None, res_signer = None, res_proposalId = None,
             res_transactionHash = None, res_balance = None\<rparr>"
  proof (intro allI impI)
    fix e
    assume "snd (submitGovernanceProposal_try env sg pd) = Inl e"
    then show "snd (submitGovernanceProposal env sg pd) =
        Inr \<lparr>res_success = False, res_error = Some (case e of ErrorObject m c \<Rightarrow> m | OtherObject c \<Rightarrow> ''Failed to submit proposal'' | Nullish \<Rightarrow> ''Failed to submit proposal''),
             res_address = None, res_signer = None, res_proposalId = None,
             res_transactionHash = None, res_balance = None\<rparr>"
      by (cases e) (simp_all add: submitGovernanceProposal_result failureResult_def)
  qed
  show "\<exists>tr r. getVotingPower env a = (tr, Inr r) \<and>
      (\<not> res_success r \<longrightarrow> (\<exists>msg. res_error r = Some msg))"
    using getVotingPower_try_success [of env a "fst (getVotingPower_try env a)"]
    by (cases "snd (getVotingPower_try env a)")
       (auto simp add: getVotingPower_result failureResult_def prod_eq_iff)
  show "\<forall>e. windowDefined env \<and> ethereumPresent env \<and> snd (getVotingPower_try env a) = Inl e \<longrightarrow>
      snd (getVotingPower env a) =
        Inr \<lparr>res_success = False, res_error = Some (case e of ErrorObject m c \<Rightarrow> m | OtherObject c \<Rightarrow> ''Failed to get voting power'' | Nullish \<Rightarrow> ''Failed to get voting power''),
             res_address = None, res_signer = None, res_proposalId = None,
             res_transactionHash = None, res_balance = None\<rparr>"
  proof (intro allI impI)
    fix e
    assume "windowDefined env \<and> ethereumPresent env \<and> snd (getVotingPower_try env a) = Inl e"
    then show "snd (getVotingPower env a) =
        Inr \<lparr>res_success = False, res_error = Some (case e of ErrorObject m c \<Rightarrow> m | OtherObject c \<Rightarrow> ''Failed to get voting power'' | Nullish \<Rightarrow> ''Failed to get voting power''),
             res_address = None, res_signer = None, res_proposalId = None,
             res_transactionHash = None, res_balance = None\<rparr>"
      by (cases e) (simp_all add: getVotingPower_result failureResult_def)
  qed
  show "\<not> (windowDefined env \<and> ethereumPresent env) \<longrightarrow>
      snd (connectWallet env) =
        Inr \<lparr>res_success = False, res_error = Some ''MetaMask not installed'',
             res_address = None, res_signer = None, res_proposalId = None,
             res_transactionHash = None, res_balance = None\<rparr> \<and>
      snd (getVotingPower env a) =
        Inr \<lparr>res_success = False, res_error = Some ''MetaMask not installed'',
             res_address = None, res_signer = None, res_proposalId = None,
             res_transactionHash = None, res_balance = None\<rparr>"
    by (auto simp add: connectWallet_result getVotingPower_result failureResult_def)
qed

theorem web3_errors_returned_witness:
  "snd (submitGovernanceProposal_try
          (exampleEnv\<lparr>propose := \<lambda>sg ts vs cs d. Inl (ErrorObject ''user rejected action'' None)\<rparr>)
          exampleSigner (fromFormData exampleProposal)) =
     Inl (ErrorObject ''user rejected action'' None) \<and>
   snd (submitGovernanceProposal
          (exampleEnv\<lparr>propose := \<lambda>sg ts vs cs d. Inl (ErrorObject ''user rejected action'' None)\<rparr>)
          exampleSigner (fromFormData exampleProposal)) =
     Inr \<lparr>res_success = False, res_error = Some ''user rejected action'',
          res_address = None, res_signer = None, res_proposalId = None,
          res_transactionHash = None, res_balance = None\<rparr> \<and>
   snd (getVotingPower_try (exampleEnv\<lparr>balanceOf := \<lambda>a. Inl (OtherObject (Some 3))\<rparr>) []) = Inl (OtherObject (Some 3)) \<and>
   snd (getVotingPower (exampleEnv\<lparr>balanceOf := \<lambda>a. Inl (OtherObject (Some 3))\<rparr>) []) =
     Inr \<lparr>res_success = False, res_error = Some ''Failed to get voting power'',
          res_address = None, res_signer = None, res_proposalId = None,
          res_transactionHash = None, res_balance = None\<rparr>"
proof -
  let ?rejecting =
    "exampleEnv\<lparr>propose := \<lambda>sg ts vs cs d. Inl (ErrorObject ''user rejected action'' None)\<rparr>"
  let ?failing = "exampleEnv\<lparr>balanceOf := \<lambda>a. Inl (OtherObject (Some 3))\<rparr>"
  have rejected: "snd (submitGovernanceProposal ?rejecting exampleSigner
        (fromFormData exampleProposal)) =
      Inr \<lparr>res_success = False, res_error = Some ''user rejected action'',
           res_address = None, res_signer = None, res_proposalId = None,
           res_transactionHash = None, res_balance = None\<rparr>"
    using web3_errors_returned
      [of ?rejecting exampleSigner "fromFormData exampleProposal" "[]"]
    by (simp add: rejected_transaction_try)
  have present: "windowDefined ?failing" "ethereumPresent ?failing"
    by (simp_all add: exampleEnv_def)
  have failed: "snd (getVotingPower ?failing []) =
      Inr \<lparr>res_success = False, res_error = Some ''Failed to get voting power'',
           res_address = None, res_signer = None, res_proposalId = None,
           res_transactionHash = None, res_balance = None\<rparr>"
    using web3_errors_returned
      [of ?failing exampleSigner "fromFormData exampleProposal" "[]"] present
    by (simp add: failing_balance_try)
  show ?thesis
    using rejected failed by (simp add: rejected_transaction_try failing_balance_try)
qed

subsection \<open>C4: a successful on-chain submission resets the form\<close>

text \<open>
  Claim C4. When the wallet is connected, \<open>handleSubmit\<close> calls
  \<open>submitGovernanceProposal\<close> and the call returns \<open>success = true\<close>, the form fields
  afterwards are the initial ones: empty title and description, a voting period of 7, the
  type \<open>general\<close>.
\<close>

theorem handleSubmit_success_resets:
  assumes "walletConnected st" "signer st = Some sg"
    and "SubmitGovernanceProposal sg (formData st) \<in>
           set (fst (handleSubmit onSubmit (onChain env) sp st))"
    and "onChain env sg (formData st) = Inr r"
    and "res_success r"
  shows "formData (snd (handleSubmit onSubmit (onChain env) sp st)) =
           \<lparr>title = [], description = [], votingPeriod = Num 7, proposalType = ''general''\<rparr>"
proof -
  have called: "(case onSubmit of None \<Rightarrow> Inr () | Some f \<Rightarrow> f (formData st)) = Inr ()"
    using assms(3)
    by (cases onSubmit; cases "(case onSubmit of None \<Rightarrow> Inr () | Some f \<Rightarrow> f (formData st))")
       (auto simp add: handleSubmit_trace_cases)
  have "\<exists>h. res_transactionHash r = Some h"
    using assms(4,5)
      submitGovernanceProposal_try_success [of env sg "fromFormData (formData st)"
        "fst (submitGovernanceProposal_try env sg (fromFormData (formData st)))"]
    by (cases "snd (submitGovernanceProposal_try env sg (fromFormData (formData st)))")
       (auto simp add: onChain_def submitGovernanceProposal_result failureResult_def prod_eq_iff)
  then show ?thesis
    using assms called
    by (auto simp add: handleSubmit_formData_cases initialFormData_def)
qed

theorem handleSubmit_success_resets_witness:
  "walletConnected connectedState \<and> signer connectedState = Some exampleSigner \<and>
   fst (handleSubmit None (onChain exampleEnv) (mock ''0.4fzyo82mvyr'') connectedState) =
     [SubmitGovernanceProposal exampleSigner exampleProposal] \<and>
   formData (snd (handleSubmit None (onChain exampleEnv) (mock ''0.4fzyo82mvyr'') connectedState)) =
     \<lparr>title = [], description = [], votingPeriod = Num 7, proposalType = ''general''\<rparr>"
  using handleSubmit_success_resets [where st = connectedState and sg = exampleSigner
      and onSubmit = None and env = exampleEnv and sp = "mock ''0.4fzyo82mvyr''"
      and r = "\<lparr>res_success = True, res_error = None, res_address = None, res_signer = None,
          res_proposalId = Some ''0xce7230110b64ac89'',
          res_transactionHash = Some ''0xce7230110b64ac89'', res_balance = None\<rparr>"]
  by (simp add: handleSubmit_trace_cases connectedState_def filledState_def initialState_def
      exampleEnv_onChain)

subsection \<open>C5: empty required fields\<close>

text \<open>
  Claim C5. A submit attempt on the form with an empty title or an empty description is
  rejected: no function is called, neither \<open>submitGovernanceProposal\<close> nor
  \<open>submitProposal\<close>, and the state stays as it was. (The rejection is the \<open>required\<close>
  attribute's; see \<open>handleSubmit_unguarded\<close> for the handler alone.)
\<close>

theorem empty_required_field_rejected:
  "title (formData st) = [] \<or> description (formData st) = [] \<Longrightarrow>
     submitForm onSubmit sgp sp st = ([], st)"
  by (auto simp add: submitForm_def checkValidity_def)

theorem empty_required_field_rejected_witness:
  "title (formData initialState) = [] \<and>
   pageSubmit exampleEnv ''0.4fzyo82mvyr'' initialState = ([], initialState)"
  using empty_required_field_rejected [where st = initialState and onSubmit = None
      and sgp = "onChain exampleEnv" and sp = "mock ''0.4fzyo82mvyr''"]
  by (simp add: pageSubmit_def initialState_def initialFormData_def)

subsection \<open>C6: the default contract call\<close>



subsection \<open>C7: the network check\<close>

text \<open>
  The specification has the chain id compared at every invocation with a provider present.
  When the account request is refused, \<open>connectWallet\<close> returns before it asks for the
  network: on chain 1, no switch is requested.
\<close>

theorem connectWallet_rejected_counterexample:
  "windowDefined (exampleEnv\<lparr>eth_requestAccounts :=
       Inl (ErrorObject ''User rejected the request.'' (Some 4001)), getNetwork := Inr 1\<rparr>) \<and>
   ethereumPresent (exampleEnv\<lparr>eth_requestAccounts :=
       Inl (ErrorObject ''User rejected the request.'' (Some 4001)), getNetwork := Inr 1\<rparr>) \<and>
   getNetwork (exampleEnv\<lparr>eth_requestAccounts :=
       Inl (ErrorObject ''User rejected the request.'' (Some 4001)), getNetwork := Inr 1\<rparr>) = Inr 1 \<and>
   connectWallet (exampleEnv\<lparr>eth_requestAccounts :=
       Inl (ErrorObject ''User rejected the request.'' (Some 4001)), getNetwork := Inr 1\<rparr>) =
     ([EthereumRequest ''eth_requestAccounts'' []],
      Inr \<lparr>res_success = False, res_error = Some ''User rejected the request.'',
           res_address = None, res_signer = None, res_proposalId = None,
           res_transactionHash = None, res_balance = None\<rparr>)"
  by (simp add: exampleEnv_def connectWallet_result connectWallet_try_def andThen_call_Inl
      failureResult_def)

text \<open>
  Claim C7, as the code has it. For every invocation of \<open>connectWallet\<close> with a provider
  present in which the account request is granted and the network query answers, the chain
  id is compared with 11155111: when they are equal no switch is requested; when they
  differ a switch to \<open>0xaa36a7\<close> is requested next, and if that request fails with code
  4902 \<open>connectWallet\<close> returns \<open>success = false\<close> with the error
  \<open>Please add the Sepolia Testnet network to your wallet\<close>.
\<close>

theorem connectWallet_network_check:
  assumes "windowDefined env" "ethereumPresent env"
    and "eth_requestAccounts env = Inr ()" "getNetwork env = Inr chainId"
  shows "(chainId = 11155111 \<longrightarrow>
            (\<forall>ps. EthereumRequest ''wallet_switchEthereumChain'' ps \<notin> set (fst (connectWallet env)))) \<and>
         (chainId \<noteq> 11155111 \<longrightarrow>
            take 3 (fst (connectWallet env)) =
              [EthereumRequest ''eth_requestAccounts'' [], GetNetwork,
               EthereumRequest ''wallet_switchEthereumChain'' [''0xaa36a7'']]) \<and>
         (\<forall>e. chainId \<noteq> 11155111 \<and> wallet_switchEthereumChain env ''0xaa36a7'' = Inl e \<and>
               codeOf e = Inr (Some 4902) \<longrightarrow>
            connectWallet env =
              ([EthereumRequest ''eth_requestAccounts'' [], GetNetwork,
                EthereumRequest ''wallet_switchEthereumChain'' [''0xaa36a7'']],
               Inr \<lparr>res_success = False, res_error = Some ''Please add the Sepolia Testnet network to your wallet'',
                    res_address = None, res_signer = None, res_proposalId = None,
                    res_transactionHash = None, res_balance = None\<rparr>))"
proof (intro conjI impI allI)
  assume "chainId = 11155111"
  then have "set (fst (connectWallet env)) \<subseteq>
      {EthereumRequest ''eth_requestAccounts'' [], GetNetwork, GetSigner, GetAddress}"
    using assms connectWallet_signer_trace [of env]
    by (auto simp add: connectWallet_result connectWallet_try_reached)
  then show "EthereumRequest ''wallet_switchEthereumChain'' ps \<notin> set (fst (connectWallet env))" for ps
    by auto
next
  assume "chainId \<noteq> 11155111"
  then show "take 3 (fst (connectWallet env)) =
      [EthereumRequest ''eth_requestAccounts'' [], GetNetwork,
       EthereumRequest ''wallet_switchEthereumChain'' [''0xaa36a7'']]"
    using assms
    by (simp add: connectWallet_result connectWallet_try_reached split: sum.split)
next
  fix e
  assume "chainId \<noteq> 11155111 \<and> wallet_switchEthereumChain env ''0xaa36a7'' = Inl e \<and>
               codeOf e = Inr (Some 4902)"
  then show "connectWallet env =
      ([EthereumRequest ''eth_requestAccounts'' [], GetNetwork,
        EthereumRequest ''wallet_switchEthereumChain'' [''0xaa36a7'']],
       Inr \<lparr>res_success = False, res_error = Some ''Please add the Sepolia Testnet network to your wallet'',
                    res_address = None, res_signer = None, res_proposalId = None,
                    res_transactionHash = None, res_balance = None\<rparr>)"
    using assms
    by (simp add: connectWallet_result connectWallet_try_reached switchFailed_4902
        failureResult_def)
qed

theorem connectWallet_network_check_witness:
  "eth_requestAccounts (exampleEnv\<lparr>getNetwork := Inr 1, wallet_switchEthereumChain :=
       \<lambda>chain. Inl (ErrorObject ''Unrecognized chain ID'' (Some 4902))\<rparr>) = Inr () \<and>
   getNetwork (exampleEnv\<lparr>getNetwork := Inr 1, wallet_switchEthereumChain :=
       \<lambda>chain. Inl (ErrorObject ''Unrecognized chain ID'' (Some 4902))\<rparr>) = Inr 1 \<and>
   connectWallet (exampleEnv\<lparr>getNetwork := Inr 1, wallet_switchEthereumChain :=
       \<lambda>chain. Inl (ErrorObject ''Unrecognized chain ID'' (Some 4902))\<rparr>) =
     ([EthereumRequest ''eth_requestAccounts'' [], GetNetwork,
       EthereumRequest ''wallet_switchEthereumChain'' [''0xaa36a7'']],
      Inr \<lparr>res_success = False, res_error = Some ''Please add the Sepolia Testnet network to your wallet'',
                    res_address = None, res_signer = None, res_proposalId = None,
                    res_transactionHash = None, res_balance = None\<rparr>)"
  using connectWallet_network_check [where env = "exampleEnv\<lparr>getNetwork := Inr 1,
      wallet_switchEthereumChain := \<lambda>chain. Inl (ErrorObject ''Unrecognized chain ID'' (Some 4902))\<rparr>"
      and chainId = 1]
  by (simp add: exampleEnv_def)

subsection \<open>C8: no wallet provider\<close>

text \<open>
  Claim C8. When \<open>window\<close> or \<open>window.ethereum\<close> is missing, \<open>connectWallet\<close> returns
  \<open>success = false\<close> with the error \<open>MetaMask not installed\<close> and makes no call at all, so
  no account request.
\<close>

theorem connectWallet_no_provider:
  "\<not> (windowDefined env \<and> ethereumPresent env) \<Longrightarrow>
     connectWallet env =
       ([], Inr \<lparr>res_success = False, res_error = Some ''MetaMask not installed'',
                 res_address = None, res_signer = None, res_proposalId = None,
                 res_transactionHash = None, res_balance = None\<rparr>)"
  by (auto simp add: connectWallet_def ret_def failureResult_def)

theorem connectWallet_no_provider_witness:
  "\<not> ethereumPresent (exampleEnv\<lparr>ethereumPresent := False\<rparr>) \<and>
   fst (connectWallet (exampleEnv\<lparr>ethereumPresent := False\<rparr>)) = [] \<and>
   (\<exists>r. snd (connectWallet (exampleEnv\<lparr>ethereumPresent := False\<rparr>)) = Inr r \<and>
        res_success r = False \<and> res_error r = Some ''MetaMask not installed'')"
  using connectWallet_no_provider [of "exampleEnv\<lparr>ethereumPresent := False\<rparr>"]
  by simp

subsection \<open>C9: the shape of a submission result\<close>

text \<open>
  Claim C9. \<open>submitProposal\<close> always returns a result, and in every result it returns
  \<open>proposalId\<close> is present exactly when \<open>success\<close> is true; the result built by its
  \<open>catch\<close> block, for any thrown value, has \<open>success = false\<close>, no \<open>proposalId\<close>, and the
  error's message in \<open>message\<close>.
\<close>

theorem submissionResult_shape:
  "(\<exists>tr r. submitProposal rnd data = (tr, Inr r)) \<and>
   (\<forall>tr r. submitProposal rnd data = (tr, Inr r) \<longrightarrow>
      (proposalId r \<noteq> None \<longleftrightarrow> success r) \<and>
      (success r \<longrightarrow> message r = ''Proposal submitted successfully'')) \<and>
   (\<forall>e tr r. submitProposal_catch e = (tr, Inr r) \<longrightarrow>
      \<not> success r \<and> proposalId r = None \<and> message r = messageOr e ''Failed to submit proposal'') \<and>
   (\<forall>e. \<exists>tr r. submitProposal_catch e = (tr, Inr r))"
  by (auto simp add: submitProposal_eval submitProposal_catch_def ret_def)

theorem submissionResult_shape_witness:
  "(\<exists>r. submitProposal ''0.4fzyo82mvyr'' exampleProposal = ([SetTimeout 1500], Inr r) \<and>
        proposalId r \<noteq> None \<and> success r) \<and>
   (\<exists>r. submitProposal_catch (ErrorObject ''network down'' None) = ([], Inr r) \<and>
        \<not> success r \<and> proposalId r = None \<and> message r = ''network down'')"
  using submissionResult_shape [of "''0.4fzyo82mvyr''" exampleProposal]
  by (simp add: submitProposal_eval submitProposal_catch_def ret_def)

subsection \<open>C10: a failed submission keeps the form\<close>

text \<open>
  Claim C10. Whenever a submission fails, the form fields after \<open>handleSubmit\<close> are those
  it started with: when the on-chain call returns \<open>success = false\<close>, when the mock call
  does, when the \<open>try\<close> block throws, and in general whenever the handler ends on an error
  message.
\<close>

theorem handleSubmit_failure_keeps_form:
  "(\<forall>sg r. walletConnected st \<and> signer st = Some sg \<and> sgp sg (formData st) = Inr r \<and>
       \<not> res_success r \<longrightarrow>
       formData (snd (handleSubmit onSubmit sgp sp st)) = formData st) \<and>
   (\<forall>r. \<not> (walletConnected st \<and> signer st \<noteq> None) \<and> sp (formData st) = Inr r \<and>
       \<not> success r \<longrightarrow>
       formData (snd (handleSubmit onSubmit sgp sp st)) = formData st) \<and>
   (\<forall>e. snd (snd (handleSubmit_try onSubmit sgp sp st
            (st\<lparr>isSubmitting := True,
                statusMessage := Some (''Processing submission...'', MsgInfo)\<rparr>))) = Some e \<longrightarrow>
       formData (snd (handleSubmit onSubmit sgp sp st)) = formData st) \<and>
   (\<forall>m. statusMessage (snd (handleSubmit onSubmit sgp sp st)) = Some (m, MsgError) \<longrightarrow>
       formData (snd (handleSubmit onSubmit sgp sp st)) = formData st)"
proof (intro conjI allI impI)
  fix sg r
  assume "walletConnected st \<and> signer st = Some sg \<and> sgp sg (formData st) = Inr r \<and>
       \<not> res_success r"
  then show "formData (snd (handleSubmit onSubmit sgp sp st)) = formData st"
    by (simp add: handleSubmit_formData_cases split: sum.split option.split)
next
  fix r
  assume "\<not> (walletConnected st \<and> signer st \<noteq> None) \<and> sp (formData st) = Inr r \<and>
       \<not> success r"
  then show "formData (snd (handleSubmit onSubmit sgp sp st)) = formData st"
    by (auto simp add: handleSubmit_formData_cases split: sum.split option.split)
next
  fix e
  assume "snd (snd (handleSubmit_try onSubmit sgp sp st
            (st\<lparr>isSubmitting := True,
                statusMessage := Some (''Processing submission...'', MsgInfo)\<rparr>))) = Some e"
  then show "formData (snd (handleSubmit onSubmit sgp sp st)) = formData st"
    by (auto simp add: handleSubmit_formData_cases handleSubmit_try_thrown submitOnChain_thrown
        submitMock_thrown split: sum.splits option.splits if_splits)
next
  fix m
  assume "statusMessage (snd (handleSubmit onSubmit sgp sp st)) = Some (m, MsgError)"
  then show "formData (snd (handleSubmit onSubmit sgp sp st)) = formData st"
    by (rule handleSubmit_error_message)
qed

theorem handleSubmit_failure_keeps_form_witness:
  "walletConnected connectedState \<and> signer connectedState = Some exampleSigner \<and>
   statusMessage (snd (handleSubmit None (\<lambda>sg d. Inr (failureResult ''execution reverted''))
       (mock ''0.4fzyo82mvyr'') connectedState)) = Some (''execution reverted'', MsgError) \<and>
   formData (snd (handleSubmit None (\<lambda>sg d. Inr (failureResult ''execution reverted''))
       (mock ''0.4fzyo82mvyr'') connectedState)) = exampleProposal"
  using handleSubmit_failure_keeps_form [where st = connectedState and onSubmit = None
      and sgp = "\<lambda>sg d. Inr (failureResult ''execution reverted'')"
      and sp = "mock ''0.4fzyo82mvyr''"]
  by (simp add: connectedState_def filledState_def initialState_def failureResult_def
      handleSubmit_def handleSubmit_try_def submitOnChain_def Let_def)

end
